theory Spec2Isabelle
  imports Main "HOL-Library.Word"
begin

unbundle bit_operations_syntax

section \<open>The entitytainer: data model\<close>

text \<open>
  The header \<^verbatim>\<open>the_entitytainer_2.h\<close> keeps, in one caller-supplied buffer, a forward
  lookup array (entity to lookup word), a reverse lookup array (child to parent), an
  array of bucket lists (tiers) and the bucket data of all tiers, one slab after the
  other.

  \<^item> \<^verbatim>\<open>TheEntitytainerEntity\<close> is \<^verbatim>\<open>short\<close>, \<^verbatim>\<open>TheEntitytainerEntry\<close> is
    \<^verbatim>\<open>unsigned short\<close>: both are 16-bit words, read with \<open>sint\<close> and \<open>uint\<close>.
  \<^item> A C \<^verbatim>\<open>int\<close> is an \<open>int\<close>. Signed overflow is undefined in C and is not
    modelled; every conversion between \<^verbatim>\<open>int\<close>, \<^verbatim>\<open>short\<close>, \<^verbatim>\<open>unsigned short\<close>
    and \<^verbatim>\<open>size_t\<close> is written out.
  \<^item> The bucket data is one list of entity slots shared by all bucket lists; the
    pointer \<^verbatim>\<open>buckets\<close> of a bucket list is its offset into that list, so that an
    index that leaves one slab lands in the next one, as in the buffer.
  \<^item> An assertion that fails and an access outside an array are results of the
    operation (\<open>Inl\<close>), never silent. The header writes its assertions as
    \<^verbatim>\<open>ENTITYTAINER_assert\<close> and, in two places, as \<^verbatim>\<open>ASSERT\<close>; both are
    assertions here.
\<close>

datatype error = AssertFailed | OutOfBounds | OverlappingCopy

type_synonym TheEntitytainerEntity = "16 word"
type_synonym TheEntitytainerEntry = "16 word"

definition and_then :: "error + 'a \<Rightarrow> ('a \<Rightarrow> error + 'b) \<Rightarrow> error + 'b" where
  "and_then m f = (case m of Inl e \<Rightarrow> Inl e | Inr x \<Rightarrow> f x)"

definition c_assert :: "bool \<Rightarrow> error + unit" where
  "c_assert b = (if b then Inr () else Inl AssertFailed)"

definition load :: "'a list \<Rightarrow> int \<Rightarrow> error + 'a" where
  "load xs i = (if 0 \<le> i \<and> i < int (length xs) then Inr (xs ! nat i) else Inl OutOfBounds)"

definition store :: "'a list \<Rightarrow> int \<Rightarrow> 'a \<Rightarrow> error + 'a list" where
  "store xs i v = (if 0 \<le> i \<and> i < int (length xs) then Inr (xs[nat i := v]) else Inl OutOfBounds)"

text \<open>
  \<^verbatim>\<open>*(int*)p = v\<close> on a pointer into the entity slots: a 32-bit \<^verbatim>\<open>int\<close> covers two
  16-bit slots, the low half first (little-endian).
\<close>

definition store_int :: "TheEntitytainerEntity list \<Rightarrow> int \<Rightarrow> int \<Rightarrow> error + TheEntitytainerEntity list" where
  "store_int xs i v =
     (if 0 \<le> i \<and> i + 1 < int (length xs)
      then Inr (xs[nat i := word_of_int v, nat i + 1 := word_of_int (v div 65536)])
      else Inl OutOfBounds)"

text \<open>
  \<^verbatim>\<open>memmove\<close> and \<^verbatim>\<open>memcpy\<close> over the entity slots, the length counted in slots.
  A negative length is a huge \<^verbatim>\<open>size_t\<close>, so it leaves the buffer; \<^verbatim>\<open>memcpy\<close> on
  overlapping ranges is undefined.
\<close>

definition copy_slots :: "'a list \<Rightarrow> nat \<Rightarrow> nat \<Rightarrow> nat \<Rightarrow> 'a list" where
  "copy_slots xs dst src n =
     map (\<lambda>k. if dst \<le> k \<and> k < dst + n then xs ! (src + (k - dst)) else xs ! k) [0 ..< length xs]"

definition memmove :: "'a list \<Rightarrow> int \<Rightarrow> int \<Rightarrow> int \<Rightarrow> error + 'a list" where
  "memmove xs dst src n =
     (if 0 \<le> n \<and> 0 \<le> dst \<and> dst + n \<le> int (length xs) \<and> 0 \<le> src \<and> src + n \<le> int (length xs)
      then Inr (copy_slots xs (nat dst) (nat src) (nat n))
      else Inl OutOfBounds)"

definition memcpy :: "'a list \<Rightarrow> int \<Rightarrow> int \<Rightarrow> int \<Rightarrow> error + 'a list" where
  "memcpy xs dst src n =
     (if 0 \<le> n \<and> 0 \<le> dst \<and> dst + n \<le> int (length xs) \<and> 0 \<le> src \<and> src + n \<le> int (length xs)
      then (if 0 < n \<and> dst < src + n \<and> src < dst + n then Inl OverlappingCopy
            else Inr (copy_slots xs (nat dst) (nat src) (nat n)))
      else Inl OutOfBounds)"

text \<open>
  Modelled from the spec: the struct \<^verbatim>\<open>TheEntitytainerBucketList\<close> is used by every
  function of the header but not declared in it (the header declares
  \<^verbatim>\<open>TheEntitytainerBucket\<close> and \<^verbatim>\<open>TheEntitytainerBlock\<close> instead). Its fields are
  the ones the functions read and write, which are the ones section 3 of the spec lists
  for a tier.
\<close>

record TheEntitytainerBucketList =
  buckets :: int
  bucket_size :: int
  total_buckets :: int
  first_free_bucket :: int
  used_buckets :: int

text \<open>
  The container, with the fields the functions use (\<^verbatim>\<open>entry_lookup\<close>,
  \<^verbatim>\<open>entry_reverse_lookup\<close>, \<^verbatim>\<open>bucket_lists\<close>, \<^verbatim>\<open>num_bucket_lists\<close>,
  \<^verbatim>\<open>entry_lookup_size\<close>) and the bucket data they point into.
\<close>

record TheEntitytainer =
  entry_lookup :: "TheEntitytainerEntry list"
  entry_reverse_lookup :: "TheEntitytainerEntity list"
  bucket_lists :: "TheEntitytainerBucketList list"
  num_bucket_lists :: int
  entry_lookup_size :: int
  bucket_data :: "TheEntitytainerEntity list"

definition ENTITYTAINER_BucketMask :: "TheEntitytainerEntry" where
  "ENTITYTAINER_BucketMask = 0x3f"

definition ENTITYTAINER_BucketListOffset :: nat where
  "ENTITYTAINER_BucketListOffset = 2 * 8 - 2"

definition ENTITYTAINER_NoFreeBucket :: int where
  "ENTITYTAINER_NoFreeBucket = -1"

text \<open>The two decoding expressions every operation applies to a lookup word.\<close>

definition bucket_list_index_of :: "TheEntitytainerEntry \<Rightarrow> int" where
  "bucket_list_index_of lookup = uint (drop_bit ENTITYTAINER_BucketListOffset lookup)"

definition bucket_index_of :: "TheEntitytainerEntry \<Rightarrow> int" where
  "bucket_index_of lookup = uint (lookup AND ENTITYTAINER_BucketMask)"


section \<open>Sizing and construction\<close>

text \<open>
  \<^verbatim>\<open>entitytainer_needed_size\<close> (lines 144-157). \<^verbatim>\<open>size_needed\<close> is an \<^verbatim>\<open>int\<close>
  and every summand is a \<^verbatim>\<open>size_t\<close>: each \<^verbatim>\<open>+=\<close> converts both sides to
  \<^verbatim>\<open>size_t\<close> (64 bits), adds, and converts the sum back to \<^verbatim>\<open>int\<close> (32 bits, two's
  complement). The sizes of the container header and of a bucket list record are
  parameters: the second struct is not declared in the header, and the first depends
  on the platform's pointer size. \<^verbatim>\<open>sizeof(TheEntitytainerEntry)\<close> and
  \<^verbatim>\<open>sizeof(TheEntitytainerEntity)\<close> are 2.
\<close>

definition to_size_t :: "int \<Rightarrow> int" where
  "to_size_t x = x mod 2 ^ 64"

definition to_int :: "int \<Rightarrow> int" where
  "to_int x = sint (word_of_int x :: 32 word)"

function needed_size_loop :: "int list \<Rightarrow> int list \<Rightarrow> int \<Rightarrow> int \<Rightarrow> int \<Rightarrow> error + int" where
  "needed_size_loop bucket_sizes bucket_list_sizes num_lists i size_needed =
     (if i < num_lists then
        (case load bucket_list_sizes i of Inl e \<Rightarrow> Inl e | Inr bls \<Rightarrow>
         case load bucket_sizes i of Inl e \<Rightarrow> Inl e | Inr bs \<Rightarrow>
           needed_size_loop bucket_sizes bucket_list_sizes num_lists (i + 1)
             (to_int (to_size_t size_needed + to_size_t (bls * bs) * 2)))
      else Inr size_needed)"
  by pat_completeness auto
termination
  by (relation "measure (\<lambda>(bs, bls, n, i, sz). nat (n - i))") auto

definition entitytainer_needed_size ::
  "nat \<Rightarrow> nat \<Rightarrow> int \<Rightarrow> int list \<Rightarrow> int list \<Rightarrow> int \<Rightarrow> error + int" where
  "entitytainer_needed_size sizeof_TheEntitytainer sizeof_TheEntitytainerBucketList
       num_entries bucket_sizes bucket_list_sizes num_lists =
     (let size_needed = to_int (int sizeof_TheEntitytainer);
          size_needed = to_int (to_size_t size_needed + to_size_t num_entries * 2);
          size_needed = to_int (to_size_t size_needed + to_size_t num_entries * 2);
          size_needed = to_int (to_size_t size_needed
                          + to_size_t num_lists * int sizeof_TheEntitytainerBucketList)
      in needed_size_loop bucket_sizes bucket_list_sizes num_lists 0 size_needed)"

text \<open>
  \<^verbatim>\<open>entitytainer_create\<close> (lines 159-208). The buffer is zeroed, then cut into the
  header, the two lookup arrays, the bucket list records and the bucket data. The
  assertion of line 184 compares two addresses inside the record area and holds in
  every iteration; the one of line 187 is an unsigned comparison. A region of negative
  extent would put the next region before the buffer: that is \<open>OutOfBounds\<close>.
  \<^verbatim>\<open>num_bucket_lists\<close> and \<^verbatim>\<open>entry_lookup_size\<close> of the container are never
  assigned, so they keep the zero of the \<^verbatim>\<open>memset\<close>.
\<close>

function create_loop ::
  "int list \<Rightarrow> int list \<Rightarrow> int \<Rightarrow> int \<Rightarrow> int \<Rightarrow> TheEntitytainerBucketList list
     \<Rightarrow> error + (TheEntitytainerBucketList list \<times> int)" where
  "create_loop bucket_sizes bucket_list_sizes num_lists i bucket_data_ptr list_records =
     (if i < num_lists then
        (case load bucket_sizes i of Inl e \<Rightarrow> Inl e | Inr bs \<Rightarrow>
         case c_assert (4 \<le> to_size_t (to_size_t bs * 2)) of Inl e \<Rightarrow> Inl e | Inr _ \<Rightarrow>
         case load bucket_list_sizes i of Inl e \<Rightarrow> Inl e | Inr bls \<Rightarrow>
           if bs * bls < 0 then Inl OutOfBounds
           else create_loop bucket_sizes bucket_list_sizes num_lists (i + 1)
                  (bucket_data_ptr + bs * bls)
                  (list_records @ [\<lparr>buckets = bucket_data_ptr, bucket_size = bs, total_buckets = bls,
                             first_free_bucket = ENTITYTAINER_NoFreeBucket,
                             used_buckets = (if i = 0 then 1 else 0)\<rparr>]))
      else Inr (list_records, bucket_data_ptr))"
  by pat_completeness auto
termination
  by (relation "measure (\<lambda>(bs, bls, n, i, p, ls). nat (n - i))") auto

definition entitytainer_create ::
  "nat \<Rightarrow> nat \<Rightarrow> int \<Rightarrow> int \<Rightarrow> int list \<Rightarrow> int list \<Rightarrow> int \<Rightarrow> error + TheEntitytainer" where
  "entitytainer_create sizeof_TheEntitytainer sizeof_TheEntitytainerBucketList
       memory_size num_entries bucket_sizes bucket_list_sizes num_lists =
     (if num_entries < 0 \<or> num_lists < 0 then Inl OutOfBounds
      else
        and_then (create_loop bucket_sizes bucket_list_sizes num_lists 0 0 [])
          (\<lambda>(list_records, bucket_data_end).
        let data = replicate (nat bucket_data_end) (0 :: TheEntitytainerEntity) in
        and_then (load data 0) (\<lambda>first_slot.
        and_then (c_assert (first_slot = 0)) (\<lambda>_.
        and_then (c_assert (int sizeof_TheEntitytainer + 2 * num_entries + 2 * num_entries
                             + int sizeof_TheEntitytainerBucketList * num_lists
                             + 2 * bucket_data_end = memory_size)) (\<lambda>_.
        Inr \<lparr>entry_lookup = replicate (nat num_entries) 0,
             entry_reverse_lookup = replicate (nat num_entries) 0,
             bucket_lists = list_records,
             num_bucket_lists = 0,
             entry_lookup_size = 0,
             bucket_data = data\<rparr>)))))"

text \<open>
  \<^verbatim>\<open>entitytainer_needs_realloc\<close> (lines 258-273). The argument \<^verbatim>\<open>percent_free\<close> is a
  \<^verbatim>\<open>float\<close>, used in two places: the test \<^verbatim>\<open>percent_free >= 0\<close> and the product
  \<^verbatim>\<open>(int)( list->total_buckets * percent_free )\<close>. Floating point arithmetic is not
  modelled: the argument is \<open>None\<close> when the test is false (a negative number or a NaN),
  and \<open>Some f\<close> when it is true, \<open>f\<close> being the function from \<^verbatim>\<open>total_buckets\<close> to
  the truncated product. The loop runs over \<^verbatim>\<open>entitytainer->num_bucket_lists\<close>, the
  field of the container.
\<close>

function needs_realloc_loop ::
  "TheEntitytainer \<Rightarrow> (int \<Rightarrow> int) option \<Rightarrow> int \<Rightarrow> int \<Rightarrow> error + bool" where
  "needs_realloc_loop s percent_free num_free_buckets i =
     (if i < num_bucket_lists s then
        (case load (bucket_lists s) i of Inl e \<Rightarrow> Inl e
         | Inr list_record \<Rightarrow>
             (case (case percent_free of None \<Rightarrow> num_free_buckets
                    | Some scaled \<Rightarrow> scaled (total_buckets list_record)) of
                num_free_buckets' \<Rightarrow>
                  if total_buckets list_record - used_buckets list_record \<le> num_free_buckets'
                  then Inr True
                  else needs_realloc_loop s percent_free num_free_buckets' (i + 1)))
      else Inr False)"
  by pat_completeness auto
termination
  by (relation "measure (\<lambda>(s, p, n, i). nat (num_bucket_lists s - i))") auto

definition entitytainer_needs_realloc ::
  "TheEntitytainer \<Rightarrow> (int \<Rightarrow> int) option \<Rightarrow> int \<Rightarrow> error + bool" where
  "entitytainer_needs_realloc s percent_free num_free_buckets =
     needs_realloc_loop s percent_free num_free_buckets 0"

section \<open>Mutations\<close>

text \<open>
  Taking a bucket from a bucket list: the freed bucket at the head of the freelist when
  there is one, else the next unused index. The same five lines stand in
  \<^verbatim>\<open>entitytainer_add_entity\<close> (280-285), in the upward migration (335-340) and in
  the downward migration (395-400). The new head of the freelist is read at
  \<^verbatim>\<open>buckets[first_free_bucket]\<close>, a \<^verbatim>\<open>short\<close> converted to \<^verbatim>\<open>int\<close>.
\<close>

definition take_bucket ::
  "TheEntitytainerEntity list \<Rightarrow> TheEntitytainerBucketList \<Rightarrow> error + (int \<times> TheEntitytainerBucketList)" where
  "take_bucket data bucket_list =
     (if first_free_bucket bucket_list \<noteq> ENTITYTAINER_NoFreeBucket then
        and_then (load data (buckets bucket_list + first_free_bucket bucket_list)) (\<lambda>next_free.
        Inr (first_free_bucket bucket_list, bucket_list\<lparr>first_free_bucket := sint next_free\<rparr>))
      else Inr (used_buckets bucket_list, bucket_list))"

text \<open>\<^verbatim>\<open>entitytainer_add_entity\<close> (lines 275-295).\<close>

definition entitytainer_add_entity :: "TheEntitytainer \<Rightarrow> TheEntitytainerEntity \<Rightarrow> error + TheEntitytainer" where
  "entitytainer_add_entity s entity =
     and_then (load (entry_lookup s) (sint entity)) (\<lambda>lookup.
     and_then (c_assert (lookup = 0)) (\<lambda>_.
     and_then (load (bucket_lists s) 0) (\<lambda>bucket_list.
     and_then (take_bucket (bucket_data s) bucket_list) (\<lambda>(bucket_index, bucket_list).
     let bucket_list = bucket_list\<lparr>used_buckets := used_buckets bucket_list + 1\<rparr> in
     and_then (load (entry_lookup s) (sint entity)) (\<lambda>lookup.
     and_then (c_assert (lookup = 0)) (\<lambda>_.
     and_then (store (entry_lookup s) (sint entity) (word_of_int bucket_index)) (\<lambda>entry_lookup'.
     and_then (store (bucket_data s) (buckets bucket_list + bucket_index * bucket_size bucket_list) 0)
       (\<lambda>data.
     Inr (s\<lparr>entry_lookup := entry_lookup',
            bucket_lists := (bucket_lists s)[0 := bucket_list],
            bucket_data := data\<rparr>)))))))))"

text \<open>
  The scan of \<^verbatim>\<open>entitytainer_remove_child\<close> (lines 377-382):
  \<^verbatim>\<open>while ( *child_temp != child && i < num_children ) { ++i; ++child; }\<close>.
  The body advances \<^verbatim>\<open>i\<close> and the parameter \<^verbatim>\<open>child\<close>; \<^verbatim>\<open>child_temp\<close> stays at
  slot 1 of the bucket.
\<close>

function remove_child_scan ::
  "TheEntitytainerEntity list \<Rightarrow> int \<Rightarrow> TheEntitytainerEntity \<Rightarrow> int \<Rightarrow> int
     \<Rightarrow> error + (int \<times> TheEntitytainerEntity)" where
  "remove_child_scan data child_temp child i num_children =
     (case load data child_temp of Inl e \<Rightarrow> Inl e
      | Inr v \<Rightarrow>
          if v \<noteq> child \<and> i < num_children
          then remove_child_scan data child_temp (child + 1) (i + 1) num_children
          else Inr (i, child))"
  by pat_completeness auto
termination
  by (relation "measure (\<lambda>(d, ct, c, i, n). nat (n - i))") auto

text \<open>The downward migration of \<^verbatim>\<open>entitytainer_remove_child\<close> (lines 394-413).\<close>

definition remove_child_migrate ::
  "TheEntitytainer \<Rightarrow> TheEntitytainerEntity \<Rightarrow> int \<Rightarrow> TheEntitytainerBucketList \<Rightarrow> int
     \<Rightarrow> error + TheEntitytainer" where
  "remove_child_migrate s parent bucket_list_index bucket_list bucket =
     and_then (load (bucket_lists s) (bucket_list_index - 1)) (\<lambda>bucket_list_new.
     and_then (take_bucket (bucket_data s) bucket_list_new) (\<lambda>(bucket_index_new, bucket_list_new).
     let bucket_offset_new = bucket_index_new * bucket_size bucket_list_new;
         bucket_new = buckets bucket_list_new + bucket_offset_new in
     and_then (memcpy (bucket_data s) bucket_new bucket (bucket_size bucket_list_new)) (\<lambda>data.
     let bucket_list_new = bucket_list_new\<lparr>used_buckets := used_buckets bucket_list_new + 1\<rparr>;
         bucket_list = bucket_list\<lparr>used_buckets := used_buckets bucket_list - 1\<rparr>;
         lookup_new = (word_of_int (push_bit ENTITYTAINER_BucketListOffset (bucket_list_index - 1))
                         :: TheEntitytainerEntry)
                      OR word_of_int bucket_index_new in
     and_then (store (entry_lookup s) (sint parent) lookup_new) (\<lambda>entry_lookup'.
     Inr (s\<lparr>entry_lookup := entry_lookup',
            bucket_lists := (bucket_lists s)[nat (bucket_list_index - 1) := bucket_list_new,
                                             nat bucket_list_index := bucket_list],
            bucket_data := data\<rparr>)))))"

text \<open>\<^verbatim>\<open>entitytainer_remove_child\<close> (lines 365-417).\<close>

definition entitytainer_remove_child ::
  "TheEntitytainer \<Rightarrow> TheEntitytainerEntity \<Rightarrow> TheEntitytainerEntity \<Rightarrow> error + TheEntitytainer" where
  "entitytainer_remove_child s parent child =
     and_then (load (entry_lookup s) (sint parent)) (\<lambda>lookup.
     and_then (c_assert (lookup \<noteq> 0)) (\<lambda>_.
     let bucket_list_index = bucket_list_index_of lookup in
     and_then (load (bucket_lists s) bucket_list_index) (\<lambda>bucket_list.
     let bucket_index = bucket_index_of lookup;
         bucket_offset = bucket_index * bucket_size bucket_list;
         bucket = buckets bucket_list + bucket_offset in
     and_then (load (bucket_data s) bucket) (\<lambda>count.
     let num_children = sint count;
         child_temp = bucket + 1 in
     and_then (remove_child_scan (bucket_data s) child_temp child 0 num_children) (\<lambda>(i, child).
     and_then (c_assert (i < num_children)) (\<lambda>_.
     and_then (memmove (bucket_data s) child_temp (child_temp + 1) (num_children - i - 1)) (\<lambda>data.
     and_then (load data bucket) (\<lambda>count.
     and_then (store data bucket (count - 1)) (\<lambda>data.
     let s = s\<lparr>bucket_data := data\<rparr> in
     and_then (load data bucket) (\<lambda>count.
     and_then (if bucket_list_index > 0 then
                 and_then (load (bucket_lists s) (bucket_list_index - 1)) (\<lambda>bucket_list_prev.
                 if sint count + 1 = bucket_size bucket_list_prev
                 then remove_child_migrate s parent bucket_list_index bucket_list bucket
                 else Inr s)
               else Inr s) (\<lambda>s.
     and_then (store (entry_reverse_lookup s) (sint child) 0) (\<lambda>entry_reverse_lookup'.
     Inr (s\<lparr>entry_reverse_lookup := entry_reverse_lookup'\<rparr>)))))))))))))"

text \<open>\<^verbatim>\<open>entitytainer_remove_entity\<close> (lines 297-321).\<close>

definition entitytainer_remove_entity :: "TheEntitytainer \<Rightarrow> TheEntitytainerEntity \<Rightarrow> error + TheEntitytainer" where
  "entitytainer_remove_entity s entity =
     and_then (load (entry_lookup s) (sint entity)) (\<lambda>lookup.
     and_then (load (entry_reverse_lookup s) (sint entity)) (\<lambda>reverse.
     and_then (if reverse \<noteq> 0 then
                 and_then (entitytainer_remove_child s reverse entity) (\<lambda>s.
                 and_then (load (entry_lookup s) (sint entity)) (\<lambda>lookup.
                 Inr (s, lookup)))
               else Inr (s, lookup)) (\<lambda>(s, lookup).
     if lookup = 0 then Inr s
     else
       let bucket_list_index = bucket_list_index_of lookup in
       and_then (load (bucket_lists s) bucket_list_index) (\<lambda>bucket_list.
       let bucket_index = bucket_index_of lookup;
           bucket_offset = bucket_index * bucket_size bucket_list in
       and_then (store_int (bucket_data s) (buckets bucket_list + bucket_offset)
                   (first_free_bucket bucket_list)) (\<lambda>data.
       let bucket_list = bucket_list\<lparr>first_free_bucket := bucket_index\<rparr> in
       and_then (store (entry_lookup s) (sint entity) 0) (\<lambda>entry_lookup'.
       let bucket_list = bucket_list\<lparr>used_buckets := used_buckets bucket_list - 1\<rparr> in
       Inr (s\<lparr>entry_lookup := entry_lookup',
              bucket_lists := (bucket_lists s)[nat bucket_list_index := bucket_list],
              bucket_data := data\<rparr>)))))))"

text \<open>The upward migration of \<^verbatim>\<open>entitytainer_add_child\<close> (lines 333-355).\<close>

definition add_child_migrate ::
  "TheEntitytainer \<Rightarrow> TheEntitytainerEntity \<Rightarrow> int \<Rightarrow> TheEntitytainerBucketList \<Rightarrow> int
     \<Rightarrow> error + (TheEntitytainer \<times> int)" where
  "add_child_migrate s parent bucket_list_index bucket_list bucket =
     and_then (c_assert (bucket_list_index \<noteq> 3)) (\<lambda>_.
     and_then (load (bucket_lists s) (bucket_list_index + 1)) (\<lambda>bucket_list_new.
     and_then (take_bucket (bucket_data s) bucket_list_new) (\<lambda>(bucket_index_new, bucket_list_new).
     let bucket_offset_new = bucket_index_new * bucket_size bucket_list_new;
         bucket_new = buckets bucket_list_new + bucket_offset_new in
     and_then (memcpy (bucket_data s) bucket_new bucket (bucket_size bucket_list)) (\<lambda>data.
     let bucket_list_new = bucket_list_new\<lparr>used_buckets := used_buckets bucket_list_new + 1\<rparr>;
         bucket_list = bucket_list\<lparr>used_buckets := used_buckets bucket_list - 1\<rparr>;
         lookup_new = (word_of_int (push_bit ENTITYTAINER_BucketListOffset (bucket_list_index + 1))
                         :: TheEntitytainerEntry)
                      OR word_of_int bucket_index_new in
     and_then (store (entry_lookup s) (sint parent) lookup_new) (\<lambda>entry_lookup'.
     Inr (s\<lparr>entry_lookup := entry_lookup',
            bucket_lists := (bucket_lists s)[nat (bucket_list_index + 1) := bucket_list_new,
                                             nat bucket_list_index := bucket_list],
            bucket_data := data\<rparr>,
          bucket_new))))))"

text \<open>\<^verbatim>\<open>entitytainer_add_child\<close> (lines 323-363).\<close>

definition entitytainer_add_child ::
  "TheEntitytainer \<Rightarrow> TheEntitytainerEntity \<Rightarrow> TheEntitytainerEntity \<Rightarrow> error + TheEntitytainer" where
  "entitytainer_add_child s parent child =
     and_then (load (entry_lookup s) (sint parent)) (\<lambda>lookup.
     and_then (c_assert (lookup \<noteq> 0)) (\<lambda>_.
     let bucket_list_index = bucket_list_index_of lookup in
     and_then (load (bucket_lists s) bucket_list_index) (\<lambda>bucket_list.
     let bucket_index = bucket_index_of lookup;
         bucket_offset = bucket_index * bucket_size bucket_list;
         bucket = buckets bucket_list + bucket_offset in
     and_then (load (bucket_data s) bucket) (\<lambda>count.
     and_then (if sint count + 1 = bucket_size bucket_list
               then add_child_migrate s parent bucket_list_index bucket_list bucket
               else Inr (s, bucket)) (\<lambda>(s, bucket).
     and_then (load (bucket_data s) bucket) (\<lambda>count.
     and_then (store (bucket_data s) bucket (count + 1)) (\<lambda>data.
     and_then (store data (bucket + sint (count + 1)) child) (\<lambda>data.
     and_then (store (entry_reverse_lookup s) (sint child) parent) (\<lambda>entry_reverse_lookup'.
     Inr (s\<lparr>bucket_data := data, entry_reverse_lookup := entry_reverse_lookup'\<rparr>))))))))))"

section \<open>Read queries\<close>

text \<open>
  \<^verbatim>\<open>entitytainer_get_children\<close> (lines 419-434) returns a pointer to slot 1 of the
  bucket and the count; \<open>children_view\<close> reads the slots the pair describes.
\<close>

definition entitytainer_get_children :: "TheEntitytainer \<Rightarrow> TheEntitytainerEntity \<Rightarrow> error + (int \<times> int)" where
  "entitytainer_get_children s parent =
     and_then (load (entry_lookup s) (sint parent)) (\<lambda>lookup.
     and_then (c_assert (lookup \<noteq> 0)) (\<lambda>_.
     let bucket_list_index = bucket_list_index_of lookup in
     and_then (load (bucket_lists s) bucket_list_index) (\<lambda>bucket_list.
     let bucket_index = bucket_index_of lookup;
         bucket_offset = bucket_index * bucket_size bucket_list;
         bucket = buckets bucket_list + bucket_offset in
     and_then (load (bucket_data s) bucket) (\<lambda>count.
     Inr (bucket + 1, sint count)))))"

definition children_view :: "TheEntitytainer \<Rightarrow> int \<times> int \<Rightarrow> error + TheEntitytainerEntity list" where
  "children_view s v =
     (case v of (children, num_children) \<Rightarrow>
        if 0 \<le> num_children \<and> 0 \<le> children \<and> children + num_children \<le> int (length (bucket_data s))
        then Inr (take (nat num_children) (drop (nat children) (bucket_data s)))
        else Inl OutOfBounds)"

text \<open>\<^verbatim>\<open>entitytainer_num_children\<close> (lines 436-446).\<close>

definition entitytainer_num_children :: "TheEntitytainer \<Rightarrow> TheEntitytainerEntity \<Rightarrow> error + int" where
  "entitytainer_num_children s parent =
     and_then (load (entry_lookup s) (sint parent)) (\<lambda>lookup.
     and_then (c_assert (lookup \<noteq> 0)) (\<lambda>_.
     let bucket_list_index = bucket_list_index_of lookup in
     and_then (load (bucket_lists s) bucket_list_index) (\<lambda>bucket_list.
     let bucket_index = bucket_index_of lookup;
         bucket_offset = bucket_index * bucket_size bucket_list;
         bucket = buckets bucket_list + bucket_offset in
     and_then (load (bucket_data s) bucket) (\<lambda>count.
     Inr (sint count)))))"

text \<open>\<^verbatim>\<open>entitytainer_get_child_index\<close> (lines 448-467).\<close>

function get_child_index_loop ::
  "TheEntitytainerEntity list \<Rightarrow> int \<Rightarrow> TheEntitytainerEntity \<Rightarrow> int \<Rightarrow> int \<Rightarrow> error + int" where
  "get_child_index_loop data bucket child i num_children =
     (if i < num_children then
        (case load data (bucket + (1 + i)) of Inl e \<Rightarrow> Inl e
         | Inr v \<Rightarrow> if v = child then Inr i
                    else get_child_index_loop data bucket child (i + 1) num_children)
      else Inr (- 1))"
  by pat_completeness auto
termination
  by (relation "measure (\<lambda>(d, b, c, i, n). nat (n - i))") auto

definition entitytainer_get_child_index ::
  "TheEntitytainer \<Rightarrow> TheEntitytainerEntity \<Rightarrow> TheEntitytainerEntity \<Rightarrow> error + int" where
  "entitytainer_get_child_index s parent child =
     and_then (load (entry_lookup s) (sint parent)) (\<lambda>lookup.
     and_then (c_assert (lookup \<noteq> 0)) (\<lambda>_.
     let bucket_list_index = bucket_list_index_of lookup in
     and_then (load (bucket_lists s) bucket_list_index) (\<lambda>bucket_list.
     let bucket_index = bucket_index_of lookup;
         bucket_offset = bucket_index * bucket_size bucket_list;
         bucket = buckets bucket_list + bucket_offset in
     and_then (load (bucket_data s) bucket) (\<lambda>count.
     get_child_index_loop (bucket_data s) bucket child 0 (sint count)))))"

text \<open>\<^verbatim>\<open>entitytainer_get_parent\<close> (lines 469-473).\<close>

definition entitytainer_get_parent :: "TheEntitytainer \<Rightarrow> TheEntitytainerEntity \<Rightarrow> error + TheEntitytainerEntity" where
  "entitytainer_get_parent s child = load (entry_reverse_lookup s) (sint child)"


section \<open>Scenarios\<close>

text \<open>
  The configuration of the header's usage example: bucket sizes 4, 16 and 256, with 4, 2
  and 2 buckets, here for 128 entities. The sizes 40 and 24 are those of the two structs
  with 8-byte pointers and 4-byte ints.
\<close>

definition example_config :: "error + TheEntitytainer" where
  "example_config =
     entitytainer_create 40 24 (40 + 2 * 128 + 2 * 128 + 24 * 3 + 2 * (4 * 4 + 16 * 2 + 256 * 2))
       128 [4, 16, 256] [4, 2, 2] 3"

text \<open>Three entities added: the first bucket list has no bucket left.\<close>

definition scenario_three_entities :: "error + TheEntitytainer" where
  "scenario_three_entities =
     and_then example_config (\<lambda>s.
     and_then (entitytainer_add_entity s 1) (\<lambda>s.
     and_then (entitytainer_add_entity s 2) (\<lambda>s.
     entitytainer_add_entity s 3)))"

text \<open>Two entities added, the first one removed again: its bucket heads the freelist.\<close>

definition scenario_S4_freed :: "error + TheEntitytainer" where
  "scenario_S4_freed =
     and_then example_config (\<lambda>s.
     and_then (entitytainer_add_entity s 1) (\<lambda>s.
     and_then (entitytainer_add_entity s 2) (\<lambda>s.
     entitytainer_remove_entity s 1)))"

text \<open>Parent 9 with the children 20, 21, 22.\<close>

definition scenario_S5_setup :: "error + TheEntitytainer" where
  "scenario_S5_setup =
     and_then example_config (\<lambda>s.
     and_then (entitytainer_add_entity s 9) (\<lambda>s.
     and_then (entitytainer_add_child s 9 20) (\<lambda>s.
     and_then (entitytainer_add_child s 9 21) (\<lambda>s.
     entitytainer_add_child s 9 22))))"

definition S5_state :: TheEntitytainer where
  "S5_state =
     \<lparr>entry_lookup = (replicate 128 0)[9 := 1],
      entry_reverse_lookup = (replicate 128 0)[20 := 9, 21 := 9, 22 := 9],
      bucket_lists =
        [\<lparr>buckets = 0, bucket_size = 4, total_buckets = 4, first_free_bucket = - 1, used_buckets = 2\<rparr>,
         \<lparr>buckets = 16, bucket_size = 16, total_buckets = 2, first_free_bucket = - 1, used_buckets = 0\<rparr>,
         \<lparr>buckets = 48, bucket_size = 256, total_buckets = 2, first_free_bucket = - 1, used_buckets = 0\<rparr>],
      num_bucket_lists = 0,
      entry_lookup_size = 0,
      bucket_data = [0, 0, 0, 0, 3, 20, 21, 22] @ replicate 552 0\<rparr>"

text \<open>
  The states around a migration of parent 9: after the upward migration alone, after the
  whole \<^verbatim>\<open>entitytainer_add_child\<close> of a fourth child 23, inside the removal of
  child 20 just before the downward migration, and after that migration.
\<close>

definition S5_migrated_up :: TheEntitytainer where
  "S5_migrated_up =
     S5_state
       \<lparr>entry_lookup := (replicate 128 0)[9 := 16384],
        bucket_lists :=
          [\<lparr>buckets = 0, bucket_size = 4, total_buckets = 4, first_free_bucket = - 1, used_buckets = 1\<rparr>,
           \<lparr>buckets = 16, bucket_size = 16, total_buckets = 2, first_free_bucket = - 1, used_buckets = 1\<rparr>,
           \<lparr>buckets = 48, bucket_size = 256, total_buckets = 2, first_free_bucket = - 1, used_buckets = 0\<rparr>],
        bucket_data := [0, 0, 0, 0, 3, 20, 21, 22] @ replicate 8 0 @ [3, 20, 21, 22] @ replicate 540 0\<rparr>"

definition S5_four_children :: TheEntitytainer where
  "S5_four_children =
     S5_migrated_up
       \<lparr>entry_reverse_lookup := (replicate 128 0)[20 := 9, 21 := 9, 22 := 9, 23 := 9],
        bucket_data := [0, 0, 0, 0, 3, 20, 21, 22] @ replicate 8 0 @ [4, 20, 21, 22, 23] @ replicate 539 0\<rparr>"

definition S5_before_down :: TheEntitytainer where
  "S5_before_down =
     S5_four_children
       \<lparr>bucket_data := [0, 0, 0, 0, 3, 20, 21, 22] @ replicate 8 0 @ [3, 21, 22, 23, 23] @ replicate 539 0\<rparr>"

definition S5_migrated_down :: TheEntitytainer where
  "S5_migrated_down =
     S5_before_down
       \<lparr>entry_lookup := (replicate 128 0)[9 := 1],
        bucket_lists :=
          [\<lparr>buckets = 0, bucket_size = 4, total_buckets = 4, first_free_bucket = - 1, used_buckets = 2\<rparr>,
           \<lparr>buckets = 16, bucket_size = 16, total_buckets = 2, first_free_bucket = - 1, used_buckets = 0\<rparr>,
           \<lparr>buckets = 48, bucket_size = 256, total_buckets = 2, first_free_bucket = - 1, used_buckets = 0\<rparr>],
        bucket_data := [0, 0, 0, 0, 3, 21, 22, 23] @ replicate 8 0 @ [3, 21, 22, 23, 23] @ replicate 539 0\<rparr>"

text \<open>Parent 5 with the children 100 and 101.\<close>

definition scenario_S2_two_children :: "error + TheEntitytainer" where
  "scenario_S2_two_children =
     and_then example_config (\<lambda>s.
     and_then (entitytainer_add_entity s 5) (\<lambda>s.
     and_then (entitytainer_add_child s 5 100) (\<lambda>s.
     entitytainer_add_child s 5 101)))"

text \<open>
  A container with two bucket lists, of bucket sizes 4 and 8, and a parent whose seven
  children fill a bucket of the second, the top one.
\<close>

definition two_tier_config :: "error + TheEntitytainer" where
  "two_tier_config =
     entitytainer_create 40 24 (40 + 2 * 32 + 2 * 32 + 24 * 2 + 2 * (4 * 4 + 8 * 2))
       32 [4, 8] [4, 2] 2"

definition scenario_top_tier_full :: "error + TheEntitytainer" where
  "scenario_top_tier_full =
     and_then two_tier_config (\<lambda>s.
     and_then (entitytainer_add_entity s 1) (\<lambda>s.
     and_then (entitytainer_add_child s 1 11) (\<lambda>s.
     and_then (entitytainer_add_child s 1 12) (\<lambda>s.
     and_then (entitytainer_add_child s 1 13) (\<lambda>s.
     and_then (entitytainer_add_child s 1 14) (\<lambda>s.
     and_then (entitytainer_add_child s 1 15) (\<lambda>s.
     and_then (entitytainer_add_child s 1 16) (\<lambda>s.
     entitytainer_add_child s 1 17))))))))"

section \<open>Basic facts\<close>

lemma and_then_Inr_iff: "and_then m f = Inr y \<longleftrightarrow> (\<exists>x. m = Inr x \<and> f x = Inr y)"
  by (cases m) (simp_all add: and_then_def)

lemma c_assert_Inr_iff: "c_assert b = Inr u \<longleftrightarrow> b"
  by (simp add: c_assert_def)

lemma load_Inr_iff: "load xs i = Inr v \<longleftrightarrow> 0 \<le> i \<and> i < int (length xs) \<and> v = xs ! nat i"
  by (auto simp: load_def)

lemma store_Inr_iff: "store xs i v = Inr ys \<longleftrightarrow> 0 \<le> i \<and> i < int (length xs) \<and> ys = xs[nat i := v]"
  by (auto simp: store_def)

lemma S5_state_reached: "scenario_S5_setup = Inr S5_state"
  by code_simp

lemma S5_four_children_reached: "entitytainer_add_child S5_state 9 23 = Inr S5_four_children"
  by code_simp

lemma remove_first_child_migrates_down:
  "entitytainer_remove_child S5_four_children 9 20
   = Inr (S5_migrated_down\<lparr>entry_reverse_lookup := (entry_reverse_lookup S5_migrated_down)[20 := 0]\<rparr>)"
  by code_simp

lemma length_copy_slots: "length (copy_slots xs dst src n) = length xs"
  by (simp add: copy_slots_def)

lemma nth_copy_slots:
  "k < length xs \<Longrightarrow>
   copy_slots xs dst src n ! k = (if dst \<le> k \<and> k < dst + n then xs ! (src + (k - dst)) else xs ! k)"
  by (simp add: copy_slots_def)

lemma memcpy_Inr_iff:
  "memcpy xs dst src n = Inr ys \<longleftrightarrow>
     0 \<le> n \<and> 0 \<le> dst \<and> dst + n \<le> int (length xs) \<and> 0 \<le> src \<and> src + n \<le> int (length xs)
     \<and> \<not> (0 < n \<and> dst < src + n \<and> src < dst + n)
     \<and> ys = copy_slots xs (nat dst) (nat src) (nat n)"
  by (auto simp: memcpy_def)

lemma take_bucket_Inr:
  assumes "take_bucket data bucket_list = Inr (i, bucket_list')"
  shows "i = (if first_free_bucket bucket_list \<noteq> - 1 then first_free_bucket bucket_list
              else used_buckets bucket_list)"
    and "buckets bucket_list' = buckets bucket_list"
    and "bucket_size bucket_list' = bucket_size bucket_list"
    and "total_buckets bucket_list' = total_buckets bucket_list"
    and "used_buckets bucket_list' = used_buckets bucket_list"
  using assms
  by (auto simp: take_bucket_def ENTITYTAINER_NoFreeBucket_def and_then_Inr_iff split: if_splits)

lemma sint_succ:
  "sint (w + 1 :: 16 word) = (if sint w = 32767 then - 32768 else sint w + 1)"
proof -
  have r: "- 32768 \<le> sint w" "sint w \<le> 32767"
    using sint_ge [of w] sint_lt [of w] by simp_all
  have "sint (w + 1) = signed_take_bit 15 (sint w + 1)"
    by (simp add: sint_word_ariths)
  also have "\<dots> = (if sint w = 32767 then - 32768 else sint w + 1)"
  proof (cases "sint w = 32767")
    case True
    then show ?thesis by simp
  next
    case False
    then have "- (2 ^ 15) \<le> sint w + 1" "sint w + 1 < 2 ^ 15"
      using r by simp_all
    then show ?thesis
      using False by (simp add: signed_take_bit_int_eq_self)
  qed
  finally show ?thesis .
qed

text \<open>What the upward migration returns.\<close>

lemma add_child_migrate_Inr:
  assumes "add_child_migrate s parent t bucket_list bucket = Inr (s1, bucket1)"
    and "new_list = bucket_lists s ! nat (t + 1)"
    and "i' = (if first_free_bucket new_list \<noteq> - 1 then first_free_bucket new_list
               else used_buckets new_list)"
  shows "t \<noteq> 3" and "0 \<le> t + 1" and "t + 1 < int (length (bucket_lists s))"
    and "bucket1 = buckets new_list + i' * bucket_size new_list"
    and "0 \<le> bucket_size bucket_list" and "0 \<le> bucket1" and "0 \<le> bucket"
    and "bucket1 + bucket_size bucket_list \<le> int (length (bucket_data s))"
    and "bucket + bucket_size bucket_list \<le> int (length (bucket_data s))"
    and "bucket_data s1 = copy_slots (bucket_data s) (nat bucket1) (nat bucket) (nat (bucket_size bucket_list))"
    and "entry_lookup s1 = (entry_lookup s)[nat (sint parent) :=
           word_of_int (push_bit 14 (t + 1)) OR word_of_int i']"
    and "\<exists>new_list'. used_buckets new_list' = used_buckets new_list + 1 \<and>
           bucket_lists s1 = (bucket_lists s)[nat (t + 1) := new_list',
              nat t := bucket_list\<lparr>used_buckets := used_buckets bucket_list - 1\<rparr>]"
    and "entry_reverse_lookup s1 = entry_reverse_lookup s"
proof -
  from assms(1) obtain nl i nl' data el where
    a: "t \<noteq> 3"
    and ld: "load (bucket_lists s) (t + 1) = Inr nl"
    and tb: "take_bucket (bucket_data s) nl = Inr (i, nl')"
    and mc: "memcpy (bucket_data s) (buckets nl' + i * bucket_size nl') bucket (bucket_size bucket_list) = Inr data"
    and st: "store (entry_lookup s) (sint parent)
               (word_of_int (push_bit ENTITYTAINER_BucketListOffset (t + 1)) OR word_of_int i) = Inr el"
    and s1: "s1 = s\<lparr>entry_lookup := el,
                    bucket_lists := (bucket_lists s)[nat (t + 1) := nl'\<lparr>used_buckets := used_buckets nl' + 1\<rparr>,
                                                     nat t := bucket_list\<lparr>used_buckets := used_buckets bucket_list - 1\<rparr>],
                    bucket_data := data\<rparr>"
    and b1: "bucket1 = buckets nl' + i * bucket_size nl'"
    unfolding add_child_migrate_def
    by (auto simp: and_then_Inr_iff c_assert_Inr_iff Let_def split: prod.splits)
  have nl: "nl = new_list" and r: "0 \<le> t + 1" "t + 1 < int (length (bucket_lists s))"
    using ld assms(2) by (simp_all add: load_Inr_iff)
  note tk = take_bucket_Inr [OF tb]
  have i: "i = i'"
    using tk(1) nl assms(3) by simp
  show "t \<noteq> 3" by (rule a)
  show "0 \<le> t + 1" "t + 1 < int (length (bucket_lists s))" by (rule r)+
  show b1': "bucket1 = buckets new_list + i' * bucket_size new_list"
    using b1 tk nl i by simp
  show "0 \<le> bucket_size bucket_list" "0 \<le> bucket1" "0 \<le> bucket"
    "bucket1 + bucket_size bucket_list \<le> int (length (bucket_data s))"
    "bucket + bucket_size bucket_list \<le> int (length (bucket_data s))"
    using mc b1 by (simp_all add: memcpy_Inr_iff)
  show "bucket_data s1 = copy_slots (bucket_data s) (nat bucket1) (nat bucket) (nat (bucket_size bucket_list))"
    using mc b1 s1 by (simp add: memcpy_Inr_iff)
  show "entry_lookup s1 = (entry_lookup s)[nat (sint parent) :=
           word_of_int (push_bit 14 (t + 1)) OR word_of_int i']"
    using st s1 i by (simp add: store_Inr_iff ENTITYTAINER_BucketListOffset_def)
  show "\<exists>new_list'. used_buckets new_list' = used_buckets new_list + 1 \<and>
           bucket_lists s1 = (bucket_lists s)[nat (t + 1) := new_list',
              nat t := bucket_list\<lparr>used_buckets := used_buckets bucket_list - 1\<rparr>]"
    using s1 tk(5) nl by (intro exI [of _ "nl'\<lparr>used_buckets := used_buckets nl' + 1\<rparr>"]) simp
  show "entry_reverse_lookup s1 = entry_reverse_lookup s"
    using s1 by simp
qed

lemma bucket_list_index_of_div: "bucket_list_index_of lookup = uint lookup div 16384"
  unfolding bucket_list_index_of_def ENTITYTAINER_BucketListOffset_def
  by (simp add: drop_bit_eq_div uint_div_distrib)

lemma bucket_list_index_of_range: "0 \<le> bucket_list_index_of lookup \<and> bucket_list_index_of lookup < 4"
proof -
  have "0 \<le> uint lookup" "uint lookup < 4 * 16384"
    using uint_lt2p [of lookup] by simp_all
  then have "0 \<le> uint lookup div 16384" "uint lookup div 16384 < 4"
    by linarith+
  then show ?thesis
    by (simp only: bucket_list_index_of_div)
qed

lemma drop_small:
  assumes "0 \<le> i" "i < 16384"
  shows "drop_bit 14 (word_of_int i :: 16 word) = 0"
proof -
  have u: "uint (word_of_int i :: 16 word) = i"
    using assms by (simp add: uint_word_of_int)
  have "uint (drop_bit 14 (word_of_int i :: 16 word)) = uint (word_of_int i :: 16 word) div 16384"
    by (simp add: drop_bit_eq_div uint_div_distrib)
  also have "\<dots> = 0"
    using assms by (simp add: u)
  finally show ?thesis
    by (simp only: uint_0_iff)
qed

lemma drop_tier1: "drop_bit 14 (word_of_int (push_bit 14 1) :: 16 word) = 1"
  by simp
lemma drop_tier2: "drop_bit 14 (word_of_int (push_bit 14 2) :: 16 word) = 2"
  by simp
lemma drop_tier3: "drop_bit 14 (word_of_int (push_bit 14 3) :: 16 word) = 3"
  by simp

lemma bucket_list_index_of_encoded:
  assumes "0 \<le> t" "t < 3" "0 \<le> i" "i < 16384"
  shows "bucket_list_index_of (word_of_int (push_bit 14 (t + 1)) OR word_of_int i) = t + 1"
proof -
  note low = drop_small [OF assms(3,4)]
  have split: "drop_bit 14 ((word_of_int (push_bit 14 u) :: 16 word) OR word_of_int i)
               = drop_bit 14 (word_of_int (push_bit 14 u) :: 16 word)" for u
    by (simp only: drop_bit_or low or.right_neutral)
  have "t = 0 \<or> t = 1 \<or> t = 2"
    using assms by linarith
  then show ?thesis
  proof (elim disjE)
    assume "t = 0"
    then show ?thesis
      unfolding bucket_list_index_of_def ENTITYTAINER_BucketListOffset_def
      using split [of 1] drop_tier1 by simp
  next
    assume "t = 1"
    then show ?thesis
      unfolding bucket_list_index_of_def ENTITYTAINER_BucketListOffset_def
      using split [of 2] drop_tier2 by simp
  next
    assume "t = 2"
    then show ?thesis
      unfolding bucket_list_index_of_def ENTITYTAINER_BucketListOffset_def
      using split [of 3] drop_tier3 by simp
  qed
qed

lemma bucket_index_of_mod: "bucket_index_of lookup = uint lookup mod 64"
proof -
  have "(0x3f :: 16 word) = mask 6"
    by (simp add: mask_eq_exp_minus_1)
  then have low: "lookup AND 0x3f = take_bit 6 lookup"
    by (simp only: take_bit_eq_mask)
  have "uint (lookup AND 0x3f) = uint lookup mod 64"
    unfolding low by (simp add: take_bit_eq_mod uint_mod_distrib)
  then show ?thesis
    by (simp only: bucket_index_of_def ENTITYTAINER_BucketMask_def)
qed

lemma decode_small_index:
  assumes "1 \<le> i" "i < 64"
  shows "(word_of_int i :: TheEntitytainerEntry) \<noteq> 0"
    and "bucket_list_index_of (word_of_int i) = 0"
    and "bucket_index_of (word_of_int i) = i"
proof -
  have u: "uint (word_of_int i :: 16 word) = i"
    using assms by (simp add: uint_word_of_int)
  show "(word_of_int i :: TheEntitytainerEntry) \<noteq> 0"
    using u assms by (metis uint_0_eq not_one_le_zero)
  show "bucket_list_index_of (word_of_int i) = 0"
    using assms by (simp add: bucket_list_index_of_div u)
  show "bucket_index_of (word_of_int i) = i"
    using assms by (simp add: bucket_index_of_mod u)
qed

text \<open>
  Where the bucket handed out by \<^verbatim>\<open>entitytainer_add_entity\<close> has an index from 1 to 63,
  the lookup word decodes to that bucket and the count read back is 0.
\<close>

lemma num_children_after_add_entity:
  assumes ok: "entitytainer_add_entity s e = Inr s'"
    and bl: "bucket_list = bucket_lists s ! 0"
    and i: "i = (if first_free_bucket bucket_list \<noteq> - 1 then first_free_bucket bucket_list
                 else used_buckets bucket_list)"
    and range: "1 \<le> i" "i < 64"
  shows "entitytainer_num_children s' e = Inr 0"
proof -
  from ok obtain bl0 j bl1 el data where
    f1: "load (entry_lookup s) (sint e) = Inr 0"
    and f2: "load (bucket_lists s) 0 = Inr bl0"
    and f3: "take_bucket (bucket_data s) bl0 = Inr (j, bl1)"
    and f4: "store (entry_lookup s) (sint e) (word_of_int j) = Inr el"
    and f5: "store (bucket_data s) (buckets bl1 + j * bucket_size bl1) 0 = Inr data"
    and s': "s' = s\<lparr>entry_lookup := el,
                    bucket_lists := (bucket_lists s)[0 := bl1\<lparr>used_buckets := used_buckets bl1 + 1\<rparr>],
                    bucket_data := data\<rparr>"
    unfolding entitytainer_add_entity_def
    by (auto simp: and_then_Inr_iff c_assert_Inr_iff Let_def split: prod.splits)
  have bl0: "bl0 = bucket_list" and ne: "bucket_lists s \<noteq> []"
    using f2 bl by (auto simp: load_Inr_iff)
  note tk = take_bucket_Inr [OF f3]
  have j: "j = i"
    using tk(1) bl0 i by simp
  have e: "0 \<le> sint e" "sint e < int (length (entry_lookup s))"
    using f1 by (simp_all add: load_Inr_iff)
  have el: "el = (entry_lookup s)[nat (sint e) := word_of_int i]"
    using f4 j by (simp add: store_Inr_iff)
  have data: "data = (bucket_data s)[nat (buckets bl1 + i * bucket_size bl1) := 0]"
    and a: "0 \<le> buckets bl1 + i * bucket_size bl1"
      "buckets bl1 + i * bucket_size bl1 < int (length (bucket_data s))"
    using f5 j by (simp_all add: store_Inr_iff)
  have l1: "load (entry_lookup s') (sint e) = Inr (word_of_int i)"
    using e by (simp add: s' el load_def)
  have l2: "load (bucket_lists s') 0 = Inr (bl1\<lparr>used_buckets := used_buckets bl1 + 1\<rparr>)"
    using ne by (simp add: s' load_def)
  have l3: "load (bucket_data s') (buckets bl1 + i * bucket_size bl1) = Inr 0"
    using a by (simp add: s' data load_def)
  note d = decode_small_index [OF range]
  show ?thesis
    unfolding entitytainer_num_children_def
    by (simp add: l1 d l2 l3 and_then_def c_assert_def Let_def)
qed

section \<open>Decoding a lookup word\<close>

text \<open>
  C3. The claim: a lookup word of 16 bits holds the bucket list index in its top 2 bits
  and the bucket index in its low 14 bits, and every operation extracts the bucket index
  as the low 14 bits. The shift \<^verbatim>\<open>ENTITYTAINER_BucketListOffset\<close> is 14 indeed, but the
  mask \<^verbatim>\<open>ENTITYTAINER_BucketMask\<close> is \<^verbatim>\<open>0x3f\<close>: the operations keep the low 6 bits
  only. The lookup word 64, which \<^verbatim>\<open>entitytainer_add_entity\<close> writes for bucket 64 of
  the first bucket list, decodes to bucket 0.
\<close>

theorem bucket_index_of_keeps_six_bits:
  "bucket_index_of lookup = uint lookup mod 64
   \<and> bucket_list_index_of lookup = uint lookup div 16384
   \<and> bucket_index_of 64 = 0 \<and> bucket_list_index_of 64 = 0"
proof -
  have "(0x3f :: 16 word) = mask 6"
    by (simp add: mask_eq_exp_minus_1)
  then have low: "lookup AND 0x3f = take_bit 6 lookup"
    by (simp only: take_bit_eq_mask)
  have "uint (lookup AND 0x3f) = uint lookup mod 64"
    unfolding low by (simp add: take_bit_eq_mod uint_mod_distrib)
  then have "bucket_index_of lookup = uint lookup mod 64"
    by (simp only: bucket_index_of_def ENTITYTAINER_BucketMask_def)
  moreover have "bucket_list_index_of lookup = uint lookup div 16384"
    unfolding bucket_list_index_of_def ENTITYTAINER_BucketListOffset_def
    by (simp add: drop_bit_eq_div uint_div_distrib)
  moreover have "bucket_index_of 64 = 0 \<and> bucket_list_index_of 64 = 0"
    by (simp add: bucket_index_of_def bucket_list_index_of_def ENTITYTAINER_BucketMask_def
        ENTITYTAINER_BucketListOffset_def)
  ultimately show ?thesis by simp
qed

section \<open>Removing an entity that owns nothing\<close>

text \<open>
  C9. For an entity \<open>e\<close> with \<open>L[e] = 0\<close> and \<open>R[e] = 0\<close>,
  \<^verbatim>\<open>entitytainer_remove_entity\<close> returns without an error and the container is the one
  it was given: no lookup entry, reverse entry, counter, freelist or bucket slot changes.
\<close>

theorem remove_entity_without_bucket_is_noop:
  "load (entry_lookup s) (sint e) = Inr 0 \<Longrightarrow> load (entry_reverse_lookup s) (sint e) = Inr 0
   \<Longrightarrow> entitytainer_remove_entity s e = Inr s"
  by (simp add: entitytainer_remove_entity_def and_then_def)

theorem remove_entity_without_bucket_is_noop_witness:
  "load (entry_lookup S5_state) (sint (3 :: TheEntitytainerEntity)) = Inr 0
   \<and> load (entry_reverse_lookup S5_state) (sint (3 :: TheEntitytainerEntity)) = Inr 0
   \<and> entitytainer_remove_entity S5_state 3 = Inr S5_state"
proof -
  have l: "load (entry_lookup S5_state) (sint (3 :: TheEntitytainerEntity)) = Inr 0"
    by (simp add: S5_state_def load_def)
  have r: "load (entry_reverse_lookup S5_state) (sint (3 :: TheEntitytainerEntity)) = Inr 0"
    by (simp add: S5_state_def load_def)
  show ?thesis
    using l r remove_entity_without_bucket_is_noop [OF l r] by simp
qed

section \<open>Scenarios on which the code leaves the specified behaviour\<close>

text \<open>
  C1. The claim: \<^verbatim>\<open>entitytainer_remove_child\<close> finds the child by a scan of the slots
  \<open>1..n\<close>, shifts the later children left and decrements the count, so that after
  adding 20, 21, 22 to parent 9 and removing 21 the children are 20, 22. The scan of the
  code never advances \<^verbatim>\<open>child_temp\<close>: it compares slot 1 with \<open>child\<close>, \<open>child + 1\<close>,
  and so on. In the scenario slot 1 holds 20, the scan ends with \<open>i = num_children\<close>,
  and the assertion \<^verbatim>\<open>i < num_children\<close> fails.
\<close>

theorem remove_child_S5_fails_assertion:
  "(case scenario_S5_setup of Inl e \<Rightarrow> False
    | Inr s \<Rightarrow>
        and_then (entitytainer_get_children s 9) (children_view s) = Inr [20, 21, 22]
        \<and> entitytainer_remove_child s 9 21 = Inl AssertFailed)"
  by code_simp

text \<open>
  C4. The claim: with a non-empty freelist \<^verbatim>\<open>entitytainer_add_entity\<close> hands out the
  bucket at the head of the freelist, and the new head is the next-free index stored in
  slot 0 of that bucket. The first half holds. For the second, the code reads
  \<^verbatim>\<open>buckets[first_free_bucket]\<close>, the slot whose number is the bucket index, and not
  slot 0 of that bucket at \<^verbatim>\<open>first_free_bucket * bucket_size\<close>, where
  \<^verbatim>\<open>entitytainer_remove_entity\<close> stored it. After add 1, add 2, remove 1 the head is
  bucket 1, whose slots 4 and 5 hold the int \<open>-1\<close>; adding 7 gives it bucket 1 and makes
  the head 0, the content of slot 1, instead of \<open>-1\<close>.
\<close>

theorem add_entity_S4_reads_wrong_freelist_slot:
  "(case scenario_S4_freed of Inl e \<Rightarrow> False
    | Inr s \<Rightarrow>
        map first_free_bucket (bucket_lists s) = [1, - 1, - 1]
        \<and> take 2 (drop (1 * 4) (bucket_data s)) = [- 1, - 1]
        \<and> (case entitytainer_add_entity s 7 of Inl e \<Rightarrow> False
           | Inr s' \<Rightarrow>
               load (entry_lookup s') 7 = Inr 1
               \<and> map first_free_bucket (bucket_lists s') = [0, - 1, - 1]))"
  by code_simp

text \<open>
  C5. The claim: when the migration test of \<^verbatim>\<open>entitytainer_add_child\<close> fires for a
  parent in the top bucket list, the operation fails with an assertion instead of
  touching a bucket list that does not exist, for every number of bucket lists up to 4.
  The assertion of the code is \<^verbatim>\<open>bucket_list_index != 3\<close>. In a container with two
  bucket lists, a parent in the second one with a full bucket passes the assertion and
  the code goes on to read the bucket list of index 2.
\<close>

theorem add_child_top_tier_reads_missing_bucket_list:
  "(case scenario_top_tier_full of Inl e \<Rightarrow> False
    | Inr s \<Rightarrow>
        length (bucket_lists s) = 2
        \<and> and_then (load (entry_lookup s) 1) (\<lambda>lookup. Inr (bucket_list_index_of lookup)) = Inr 1
        \<and> entitytainer_num_children s 1 = Inr 7
        \<and> map bucket_size (bucket_lists s) = [4, 8]
        \<and> entitytainer_add_child s 1 18 = Inl OutOfBounds)"
  by code_simp

text \<open>
  C10. The claim: right after a successful \<^verbatim>\<open>entitytainer_add_entity\<close> of \<open>e\<close>,
  \<^verbatim>\<open>entitytainer_num_children\<close> of \<open>e\<close> is 0. After add 1, add 2, remove 1, add 7
  the freelist head is 0 (see C4), so the next entity, 8, is given bucket 0 and the
  lookup word 0, which is the word of an entity without a bucket: the call succeeds, and
  \<^verbatim>\<open>entitytainer_num_children\<close> of 8 fails its assertion \<^verbatim>\<open>lookup != 0\<close>.
\<close>

theorem num_children_after_add_entity_fails_assertion:
  "(case scenario_S4_freed of Inl e \<Rightarrow> False
    | Inr s \<Rightarrow>
       (case entitytainer_add_entity s 7 of Inl e \<Rightarrow> False
        | Inr s \<Rightarrow>
           (case entitytainer_add_entity s 8 of Inl e \<Rightarrow> False
            | Inr s \<Rightarrow>
                load (entry_lookup s) 8 = Inr 0
                \<and> entitytainer_num_children s 8 = Inl AssertFailed)))"
  by code_simp

section \<open>The size of the buffer\<close>

lemma to_int_cong:
  assumes "x mod 2 ^ 32 = y mod 2 ^ 32"
  shows "to_int x = to_int y"
proof -
  have "(word_of_int x :: 32 word) = word_of_int y"
    using assms by (simp add: word_of_int_eq_iff take_bit_eq_mod)
  then show ?thesis
    by (simp only: to_int_def)
qed

lemma to_int_mod32: "to_int x mod 2 ^ 32 = x mod 2 ^ 32"
proof -
  have "to_int x mod 2 ^ 32 = take_bit 32 (sint (word_of_int x :: 32 word))"
    by (simp add: to_int_def take_bit_eq_mod)
  also have "\<dots> = uint (word_of_int x :: 32 word)"
    by (simp add: uint_sint)
  also have "\<dots> = x mod 2 ^ 32"
    by (simp add: uint_word_of_int)
  finally show ?thesis .
qed

lemma to_size_t_mod32: "to_size_t x mod 2 ^ 32 = x mod 2 ^ 32"
proof -
  have "(2 :: int) ^ 32 dvd 2 ^ 64"
    by (rule le_imp_power_dvd) simp
  then show ?thesis
    unfolding to_size_t_def by (rule mod_mod_cancel)
qed

lemma to_int_step: "to_int (to_size_t (to_int a) + to_size_t b * c) = to_int (a + b * c)"
proof (rule to_int_cong)
  have "to_size_t (to_int a) mod 2 ^ 32 = a mod 2 ^ 32"
    by (simp only: to_size_t_mod32 to_int_mod32)
  then show "(to_size_t (to_int a) + to_size_t b * c) mod 2 ^ 32 = (a + b * c) mod 2 ^ 32"
    by (intro mod_add_cong mod_mult_cong to_size_t_mod32 refl)
qed

lemma to_int_id: "- (2 ^ 31) \<le> x \<Longrightarrow> x < 2 ^ 31 \<Longrightarrow> to_int x = x"
  unfolding to_int_def
  by (simp add: signed_of_int signed_take_bit_int_eq_self)

lemma needed_size_loop_sum:
  "0 \<le> i \<Longrightarrow> num_lists \<le> int (length bucket_sizes) \<Longrightarrow> num_lists \<le> int (length bucket_list_sizes)
   \<Longrightarrow> needed_size_loop bucket_sizes bucket_list_sizes num_lists i (to_int acc)
       = Inr (to_int (acc + (\<Sum>k = nat i ..< nat num_lists. bucket_list_sizes ! k * bucket_sizes ! k * 2)))"
proof (induction bucket_sizes bucket_list_sizes num_lists i "to_int acc" arbitrary: acc
    rule: needed_size_loop.induct)
  case (1 bucket_sizes bucket_list_sizes num_lists i)
  show ?case
  proof (cases "i < num_lists")
    case False
    then have "nat num_lists \<le> nat i" by simp
    then show ?thesis
      using False by (subst needed_size_loop.simps) simp
  next
    case True
    let ?f = "\<lambda>k. bucket_list_sizes ! k * bucket_sizes ! k * 2"
    have ld1: "load bucket_list_sizes i = Inr (bucket_list_sizes ! nat i)"
      using True "1.prems" by (simp add: load_def)
    have ld2: "load bucket_sizes i = Inr (bucket_sizes ! nat i)"
      using True "1.prems" by (simp add: load_def)
    have step: "to_int (to_size_t (to_int acc)
                  + to_size_t (bucket_list_sizes ! nat i * bucket_sizes ! nat i) * 2)
                = to_int (acc + ?f (nat i))"
      by (simp only: to_int_step)
    have ih: "needed_size_loop bucket_sizes bucket_list_sizes num_lists (i + 1)
                (to_int (acc + ?f (nat i)))
              = Inr (to_int (acc + ?f (nat i) + (\<Sum>k = nat (i + 1) ..< nat num_lists. ?f k)))"
      using "1.hyps" [OF True ld1 ld2 step] "1.prems" by simp
    have nat_succ: "nat (i + 1) = Suc (nat i)"
      using "1.prems" by simp
    have lt: "nat i < nat num_lists"
      using True "1.prems" by simp
    have split: "(\<Sum>k = nat i ..< nat num_lists. ?f k)
                 = ?f (nat i) + (\<Sum>k = Suc (nat i) ..< nat num_lists. ?f k)"
      using lt by (simp add: sum.atLeast_Suc_lessThan)
    show ?thesis
      using True ld1 ld2 step ih
      by (subst needed_size_loop.simps) (simp add: nat_succ split add.assoc)
  qed
qed

text \<open>
  C7, as the spec states it: for all inputs \<^verbatim>\<open>entitytainer_needed_size\<close> returns exactly
  the size of the header, plus twice \<open>max_entities\<close> for each of the two lookup arrays,
  plus the size of a bucket list record for each of the \<open>T\<close> bucket lists, plus the
  bucket data. The function accumulates in an \<^verbatim>\<open>int\<close>: for 536870912 entities and the
  example's three bucket lists the sum is 2147484880, above the largest \<^verbatim>\<open>int\<close>, and
  the function returns \<open>-2147482416\<close>.
\<close>

theorem needed_size_overflow_counterexample:
  "entitytainer_needed_size 40 24 536870912 [4, 16, 256] [4, 2, 2] 3 = Inr (- 2147482416)
   \<and> (40 + 536870912 * 2 + 536870912 * 2 + 3 * 24
        + (4 * 4 * 2 + 2 * 16 * 2 + 2 * 256 * 2) :: int) = 2147484880"
  by code_simp

text \<open>
  C7, amended. \<^verbatim>\<open>entitytainer_needed_size\<close> is a function of its arguments alone. When
  the two arrays hold an entry for each of the \<open>T\<close> bucket lists, it returns the sum of
  the size of the header, twice \<open>max_entities\<close> for the lookup array, twice
  \<open>max_entities\<close> for the reverse lookup array, the size of a bucket list record for each
  bucket list and, for each bucket list, its number of buckets times its bucket size
  times the size of an entity (2), reduced to a 32-bit two's complement \<^verbatim>\<open>int\<close>: it
  returns exactly that sum whenever the sum is at least \<open>-2^31\<close> and below \<open>2^31\<close>.
\<close>

theorem needed_size_formula:
  assumes "num_lists \<le> int (length bucket_sizes)"
    and "num_lists \<le> int (length bucket_list_sizes)"
    and "bytes = int sizeof_header + num_entries * 2 + num_entries * 2
                 + num_lists * int sizeof_bucket_list
                 + (\<Sum>t < nat num_lists. bucket_list_sizes ! t * bucket_sizes ! t * 2)"
  shows "entitytainer_needed_size sizeof_header sizeof_bucket_list num_entries
           bucket_sizes bucket_list_sizes num_lists = Inr (to_int bytes)
         \<and> (- (2 ^ 31) \<le> bytes \<and> bytes < 2 ^ 31 \<longrightarrow>
              entitytainer_needed_size sizeof_header sizeof_bucket_list num_entries
                bucket_sizes bucket_list_sizes num_lists = Inr bytes)"
proof -
  let ?base = "int sizeof_header + num_entries * 2 + num_entries * 2
               + num_lists * int sizeof_bucket_list"
  have "to_int (to_size_t (to_int (to_size_t (to_int (to_size_t (to_int (int sizeof_header))
            + to_size_t num_entries * 2)) + to_size_t num_entries * 2))
            + to_size_t num_lists * int sizeof_bucket_list)
        = to_int ?base"
    by (simp only: to_int_step)
  then have "entitytainer_needed_size sizeof_header sizeof_bucket_list num_entries
               bucket_sizes bucket_list_sizes num_lists
             = needed_size_loop bucket_sizes bucket_list_sizes num_lists 0 (to_int ?base)"
    unfolding entitytainer_needed_size_def Let_def by (rule arg_cong)
  also have "\<dots> = Inr (to_int (?base
        + (\<Sum>k = nat 0 ..< nat num_lists. bucket_list_sizes ! k * bucket_sizes ! k * 2)))"
    using assms(1,2) by (intro needed_size_loop_sum) simp_all
  also have "\<dots> = Inr (to_int bytes)"
    by (simp add: assms(3) atLeast0LessThan)
  finally have wrapped: "entitytainer_needed_size sizeof_header sizeof_bucket_list num_entries
           bucket_sizes bucket_list_sizes num_lists = Inr (to_int bytes)" .
  moreover have "to_int bytes = bytes" if "- (2 ^ 31) \<le> bytes \<and> bytes < 2 ^ 31"
    using that by (simp add: to_int_id)
  ultimately show ?thesis
    by simp
qed

theorem needed_size_formula_witness:
  "(3 :: int) \<le> int (length [4, 16, 256 :: int]) \<and> (3 :: int) \<le> int (length [4, 2, 2 :: int])
   \<and> - (2 ^ 31) \<le> (5328 :: int) \<and> (5328 :: int) < 2 ^ 31
   \<and> entitytainer_needed_size 40 24 1024 [4, 16, 256] [4, 2, 2] 3 = Inr 5328"
proof -
  have l1: "(3 :: int) \<le> int (length [4, 16, 256 :: int])"
    and l2: "(3 :: int) \<le> int (length [4, 2, 2 :: int])"
    by simp_all
  have sum: "(5328 :: int) = int 40 + 1024 * 2 + 1024 * 2 + 3 * int 24
               + (\<Sum>t < nat 3. [4, 2, 2] ! t * [4, 16, 256] ! t * 2)"
    by (simp add: lessThan_nat_numeral lessThan_Suc)
  have "- (2 ^ 31) \<le> (5328 :: int) \<and> (5328 :: int) < 2 ^ 31 \<longrightarrow>
          entitytainer_needed_size 40 24 1024 [4, 16, 256] [4, 2, 2] 3 = Inr 5328"
    using needed_size_formula [OF l1 l2 sum] by (rule conjunct2)
  then show ?thesis
    by simp
qed

section \<open>Asking whether the buffer is running out\<close>

lemma needs_realloc_without_lists:
  "num_bucket_lists s \<le> 0 \<Longrightarrow> entitytainer_needs_realloc s percent_free num_free_buckets = Inr False"
  unfolding entitytainer_needs_realloc_def
  by (subst needs_realloc_loop.simps) simp

lemma create_leaves_num_bucket_lists_zero:
  "entitytainer_create a b memory_size num_entries bucket_sizes bucket_list_sizes num_lists = Inr s
   \<Longrightarrow> num_bucket_lists s = 0"
  unfolding entitytainer_create_def
  by (auto simp: and_then_Inr_iff Let_def split: if_splits prod.splits)

lemma needs_realloc_after_create:
  "entitytainer_create a b memory_size num_entries bucket_sizes bucket_list_sizes num_lists = Inr s
   \<Longrightarrow> entitytainer_needs_realloc s percent_free num_free_buckets = Inr False"
  by (simp add: create_leaves_num_bucket_lists_zero needs_realloc_without_lists)

text \<open>
  C8. The claim: \<^verbatim>\<open>entitytainer_needs_realloc\<close> returns true if and only if some bucket
  list has \<open>total_buckets - used_buckets\<close> at most the threshold, which is \<open>abs_free\<close>
  when \<open>percent_free\<close> is negative. The loop of the code runs over
  \<^verbatim>\<open>entitytainer->num_bucket_lists\<close>, a field that \<^verbatim>\<open>entitytainer_create\<close> never
  assigns and that no operation writes: it is the 0 of the \<^verbatim>\<open>memset\<close>, the loop body
  never runs, and the function returns false. After three entities are added to the
  example container its bucket lists have 0, 2 and 2 buckets left; with a negative
  \<open>percent_free\<close> and \<open>abs_free\<close> 100, or 0, the first bucket list is within the
  threshold and the function returns false all the same.
\<close>

theorem needs_realloc_misses_full_bucket_list:
  "(case scenario_three_entities of Inl e \<Rightarrow> False
    | Inr s \<Rightarrow>
        map (\<lambda>list_record. total_buckets list_record - used_buckets list_record) (bucket_lists s)
          = [0, 2, 2]
        \<and> num_bucket_lists s = 0
        \<and> entitytainer_needs_realloc s None 100 = Inr False
        \<and> entitytainer_needs_realloc s None 0 = Inr False)"
  by code_simp

section \<open>Migration on adding a child\<close>

text \<open>
  C2, as the spec states it: \<^verbatim>\<open>entitytainer_add_child\<close> migrates the parent to the next
  bucket list exactly when \<open>n + 1 = B - 1\<close>, so that with bucket size 4 the third child
  triggers the migration. The test of the code is \<^verbatim>\<open>bucket[0] + 1 == bucket_size\<close>,
  the bucket being full with its count and \<open>B - 1\<close> children. With two children in a
  bucket of size 4, where \<open>n + 1 = B - 1\<close>, adding the third child leaves the lookup
  array and the bucket lists as they are: the parent stays in the first bucket list.
\<close>

theorem add_child_third_child_does_not_migrate:
  "(case scenario_S2_two_children of Inl e \<Rightarrow> False
    | Inr s \<Rightarrow>
        entitytainer_num_children s 5 = Inr 2
        \<and> map bucket_size (bucket_lists s) = [4, 16, 256]
        \<and> and_then (load (entry_lookup s) 5) (\<lambda>lookup. Inr (bucket_list_index_of lookup)) = Inr 0
        \<and> (case entitytainer_add_child s 5 102 of Inl e \<Rightarrow> False
           | Inr s' \<Rightarrow>
               entry_lookup s' = entry_lookup s \<and> bucket_lists s' = bucket_lists s
               \<and> entitytainer_num_children s' 5 = Inr 3))"
  by code_simp

text \<open>
  C2, amended. Let \<^verbatim>\<open>entitytainer_add_child\<close> succeed for a parent \<open>p\<close> whose lookup
  word decodes to bucket list \<open>t\<close>, of bucket size \<open>B\<close>, and to a bucket holding the count
  \<open>n\<close>. The lookup word is not 0. If \<open>n + 1 \<noteq> B\<close>, nothing migrates: the lookup array and
  the bucket lists are unchanged, the count is incremented and the child is written in
  the old bucket. If \<open>n + 1 = B\<close>, the bucket is moved to bucket list \<open>t + 1\<close>, which
  exists, with \<open>t \<noteq> 3\<close>: the new bucket is the head of that list's freelist, or its next
  unused bucket when the freelist is empty; \<open>L[p]\<close> is rewritten to \<open>t + 1\<close> shifted by 14
  bits, or-ed with the new bucket index, which decodes to bucket list \<open>t + 1\<close> when the
  index is below 16384; the used counter of list \<open>t + 1\<close> goes up by one and that of list
  \<open>t\<close> down by one; the slots \<open>1..n\<close> of the new bucket hold the children of the old one;
  and, for \<open>B > 0\<close>, slot 0 of the new bucket holds \<open>n + 1\<close> and the child is written
  after the copied children. With bucket size 4 it is the fourth child that migrates.
\<close>

theorem add_child_migrates_when_full:
  assumes ok: "entitytainer_add_child s p c = Inr s'"
    and lookup: "lookup = entry_lookup s ! nat (sint p)"
    and t: "t = bucket_list_index_of lookup"
    and bucket_list: "bucket_list = bucket_lists s ! nat t"
    and B: "B = bucket_size bucket_list"
    and bucket: "bucket = buckets bucket_list + bucket_index_of lookup * B"
    and count: "count = bucket_data s ! nat bucket"
    and new_list: "new_list = bucket_lists s ! nat (t + 1)"
    and i': "i' = (if first_free_bucket new_list \<noteq> - 1 then first_free_bucket new_list
                   else used_buckets new_list)"
    and bucket': "bucket' = buckets new_list + i' * bucket_size new_list"
  shows "lookup \<noteq> 0 \<and>
    (if sint count + 1 = B
     then t \<noteq> 3 \<and> t + 1 < int (length (bucket_lists s))
        \<and> entry_lookup s' = (entry_lookup s)[nat (sint p) :=
              word_of_int (push_bit 14 (t + 1)) OR word_of_int i']
        \<and> (0 \<le> i' \<and> i' < 16384 \<longrightarrow> bucket_list_index_of (entry_lookup s' ! nat (sint p)) = t + 1)
        \<and> used_buckets (bucket_lists s' ! nat (t + 1)) = used_buckets new_list + 1
        \<and> used_buckets (bucket_lists s' ! nat t) = used_buckets bucket_list - 1
        \<and> (\<forall>k. 1 \<le> k \<and> k \<le> sint count \<longrightarrow>
              bucket_data s' ! nat (bucket' + k) = bucket_data s ! nat (bucket + k))
        \<and> (0 < B \<longrightarrow> bucket_data s' ! nat bucket' = count + 1
                      \<and> bucket_data s' ! nat (bucket' + sint (count + 1)) = c)
     else entry_lookup s' = entry_lookup s \<and> bucket_lists s' = bucket_lists s
        \<and> bucket_data s' = (bucket_data s)[nat bucket := count + 1,
                                           nat (bucket + sint (count + 1)) := c])"
proof -
  from ok obtain lk bl cnt s1 bucket1 cnt1 d2 d3 R' where
    f1: "load (entry_lookup s) (sint p) = Inr lk" and f2: "lk \<noteq> 0"
    and f3: "load (bucket_lists s) (bucket_list_index_of lk) = Inr bl"
    and f4: "load (bucket_data s) (buckets bl + bucket_index_of lk * bucket_size bl) = Inr cnt"
    and f5: "(if sint cnt + 1 = bucket_size bl
              then add_child_migrate s p (bucket_list_index_of lk) bl
                     (buckets bl + bucket_index_of lk * bucket_size bl)
              else Inr (s, buckets bl + bucket_index_of lk * bucket_size bl)) = Inr (s1, bucket1)"
    and f6: "load (bucket_data s1) bucket1 = Inr cnt1"
    and f7: "store (bucket_data s1) bucket1 (cnt1 + 1) = Inr d2"
    and f8: "store d2 (bucket1 + sint (cnt1 + 1)) c = Inr d3"
    and f9: "store (entry_reverse_lookup s1) (sint c) p = Inr R'"
    and s': "s' = s1\<lparr>bucket_data := d3, entry_reverse_lookup := R'\<rparr>"
    unfolding entitytainer_add_child_def
    by (auto simp: and_then_Inr_iff c_assert_Inr_iff Let_def split: prod.splits)
  have lk: "lk = lookup"
    using f1 lookup by (simp add: load_Inr_iff)
  have t0: "0 \<le> t" and tl: "t < int (length (bucket_lists s))" and bl: "bl = bucket_list"
    using f3 lk t bucket_list by (simp_all add: load_Inr_iff)
  have b0: "0 \<le> bucket" and blen: "bucket < int (length (bucket_data s))" and cnt: "cnt = count"
    using f4 lk bl B bucket count by (simp_all add: load_Inr_iff)
  have d2: "d2 = (bucket_data s1)[nat bucket1 := cnt1 + 1]"
    and b1: "0 \<le> bucket1" "bucket1 < int (length (bucket_data s1))"
    and cnt1: "cnt1 = bucket_data s1 ! nat bucket1"
    using f6 f7 by (simp_all add: load_Inr_iff store_Inr_iff)
  have d3: "d3 = d2[nat (bucket1 + sint (cnt1 + 1)) := c]"
    and j: "0 \<le> bucket1 + sint (cnt1 + 1)" "bucket1 + sint (cnt1 + 1) < int (length d2)"
    using f8 by (simp_all add: store_Inr_iff)
  have data': "bucket_data s' = d3"
    using s' by simp
  show ?thesis
  proof (cases "sint count + 1 = B")
    case False
    then have "s1 = s" "bucket1 = bucket"
      using f5 cnt bl B lk bucket by simp_all
    then show ?thesis
      using False f2 lk s' d2 d3 cnt1 count by simp
  next
    case True
    then have mig: "add_child_migrate s p t bucket_list bucket = Inr (s1, bucket1)"
      using f5 cnt bl B lk bucket t by simp
    note m = add_child_migrate_Inr [OF mig new_list i']
    have bk1: "bucket1 = bucket'"
      using m(4) bucket' by simp
    have copied: "bucket_data s1 = copy_slots (bucket_data s) (nat bucket') (nat bucket) (nat B)"
      using m(10) bk1 B by simp
    have len1: "length (bucket_data s1) = length (bucket_data s)"
      using copied by (simp add: length_copy_slots)
    have fits: "0 \<le> B" "bucket' + B \<le> int (length (bucket_data s))"
      using m(5,8) bk1 B by simp_all
    have used_new: "used_buckets (bucket_lists s' ! nat (t + 1)) = used_buckets new_list + 1"
    proof -
      from m(12) obtain nl' where nl': "used_buckets nl' = used_buckets new_list + 1"
        and bls: "bucket_lists s1 = (bucket_lists s)[nat (t + 1) := nl',
              nat t := bucket_list\<lparr>used_buckets := used_buckets bucket_list - 1\<rparr>]"
        by blast
      have "nat (t + 1) \<noteq> nat t" "nat (t + 1) < length (bucket_lists s)"
        using t0 m(3) by simp_all
      then show ?thesis
        using bls nl' s' by simp
    qed
    have used_old: "used_buckets (bucket_lists s' ! nat t) = used_buckets bucket_list - 1"
    proof -
      from m(12) obtain nl' where
        bls: "bucket_lists s1 = (bucket_lists s)[nat (t + 1) := nl',
              nat t := bucket_list\<lparr>used_buckets := used_buckets bucket_list - 1\<rparr>]"
        by blast
      have "nat t < length (bucket_lists s)"
        using t0 tl by simp
      then show ?thesis
        using bls s' by simp
    qed
    have el: "entry_lookup s' = (entry_lookup s)[nat (sint p) :=
              word_of_int (push_bit 14 (t + 1)) OR word_of_int i']"
      using m(11) s' by simp
    have decode: "bucket_list_index_of (entry_lookup s' ! nat (sint p)) = t + 1"
      if "0 \<le> i'" "i' < 16384"
    proof -
      have "0 \<le> sint p \<and> sint p < int (length (entry_lookup s))"
        using f1 by (simp add: load_Inr_iff)
      then have "nat (sint p) < length (entry_lookup s)"
        by linarith
      then have "entry_lookup s' ! nat (sint p)
                 = word_of_int (push_bit 14 (t + 1)) OR word_of_int i'"
        by (simp add: el)
      moreover have "t < 3"
        using m(1) bucket_list_index_of_range [of lookup] t by simp
      ultimately show ?thesis
        using t0 that by (simp only: bucket_list_index_of_encoded)
    qed
    have cnt1_eq: "cnt1 = count" if "0 < B"
    proof -
      have "nat bucket' < length (bucket_data s)"
        using that fits b1 bk1 by simp
      then have "bucket_data s1 ! nat bucket' = bucket_data s ! nat bucket"
        using that by (simp add: copied nth_copy_slots)
      then show ?thesis
        using cnt1 bk1 count by simp
    qed
    have children: "bucket_data s' ! nat (bucket' + k) = bucket_data s ! nat (bucket + k)"
      if k: "1 \<le> k" "k \<le> sint count" for k
    proof -
      have Bpos: "0 < B" and kB: "k < B"
        using k True by simp_all
      have c1: "cnt1 = count"
        using Bpos by (rule cnt1_eq)
      have rng: "nat (bucket' + k) < length (bucket_data s)"
        using kB fits b1 bk1 k by simp
      have "sint (count + 1) = - 32768 \<or> sint (count + 1) = sint count + 1"
        by (simp add: sint_succ)
      then have ne_j: "nat (bucket' + k) \<noteq> nat (bucket1 + sint (cnt1 + 1))"
        using j k b1 bk1 c1 by auto
      have ne_0: "nat (bucket' + k) \<noteq> nat bucket1"
        using k b1 bk1 by simp
      have "bucket_data s' ! nat (bucket' + k) = bucket_data s1 ! nat (bucket' + k)"
        using ne_j ne_0 by (simp add: data' d3 d2)
      also have "\<dots> = bucket_data s ! (nat bucket + (nat (bucket' + k) - nat bucket'))"
      proof -
        have "nat bucket' \<le> nat (bucket' + k) \<and> nat (bucket' + k) < nat bucket' + nat B"
          using kB k b1 bk1 by linarith
        then show ?thesis
          using rng unfolding copied by (simp only: nth_copy_slots simp_thms if_True)
      qed
      also have "nat bucket + (nat (bucket' + k) - nat bucket') = nat (bucket + k)"
        using k b0 b1 bk1 by simp
      finally show ?thesis .
    qed
    have slot0: "bucket_data s' ! nat bucket' = count + 1
                 \<and> bucket_data s' ! nat (bucket' + sint (count + 1)) = c" if Bpos: "0 < B"
    proof -
      have c1: "cnt1 = count"
        using Bpos by (rule cnt1_eq)
      have "sint (count + 1) \<noteq> 0"
        using True Bpos by (simp add: sint_succ)
      then have ne: "nat (bucket1 + sint (cnt1 + 1)) \<noteq> nat bucket1"
        using j b1 c1 by simp
      have "d2 ! nat bucket1 = count + 1"
        using b1 c1 by (simp add: d2)
      then have "bucket_data s' ! nat bucket' = count + 1"
        using ne bk1 by (simp add: data' d3)
      moreover have "bucket_data s' ! nat (bucket' + sint (count + 1)) = c"
        using j c1 bk1 by (simp add: data' d3)
      ultimately show ?thesis by simp
    qed
    show ?thesis
      using True f2 lk m(1) m(3) el decode used_new used_old children slot0 by simp
  qed
qed

theorem add_child_migrates_when_full_witness:
  "entitytainer_add_child S5_state 9 23 = Inr S5_four_children
   \<and> sint (bucket_data S5_state ! 4) + 1 = bucket_size (bucket_lists S5_state ! 0)
   \<and> entry_lookup S5_four_children = (entry_lookup S5_state)[9 := 16384]
   \<and> bucket_list_index_of (entry_lookup S5_four_children ! 9) = 1
   \<and> used_buckets (bucket_lists S5_four_children ! 1) = 1
   \<and> used_buckets (bucket_lists S5_four_children ! 0) = 1
   \<and> bucket_data S5_four_children ! 16 = 4
   \<and> bucket_data S5_four_children ! 20 = 23"
proof -
  have h: "entitytainer_add_child S5_state 9 23 = Inr S5_four_children"
    by code_simp
  have lk: "entry_lookup S5_state ! nat (sint (9 :: TheEntitytainerEntity)) = 1"
    by (simp add: S5_state_def)
  have t: "bucket_list_index_of 1 = 0" and bi: "bucket_index_of 1 = 1"
    and t': "bucket_list_index_of 16384 = 1"
    by (simp_all add: bucket_list_index_of_def bucket_index_of_def
        ENTITYTAINER_BucketListOffset_def ENTITYTAINER_BucketMask_def)
  show ?thesis
    using add_child_migrates_when_full [OF h refl refl refl refl refl refl refl refl refl] h
    by (simp add: lk t bi t' S5_state_def)
qed

section \<open>Migration and the reverse lookup\<close>

text \<open>
  C6. Neither the upward migration inside \<^verbatim>\<open>entitytainer_add_child\<close> nor the downward
  migration inside \<^verbatim>\<open>entitytainer_remove_child\<close> writes the reverse lookup array:
  after the migration \<open>R\<close> is the array it was before, so \<^verbatim>\<open>entitytainer_get_parent\<close>
  answers the same for every entity, the surviving children of the parent among them.
\<close>

theorem migration_leaves_reverse_lookup:
  "add_child_migrate s parent bucket_list_index bucket_list bucket = Inr (s', bucket')
   \<or> remove_child_migrate s parent bucket_list_index bucket_list bucket = Inr s'
   \<Longrightarrow> entry_reverse_lookup s' = entry_reverse_lookup s
       \<and> (\<forall>c. entitytainer_get_parent s' c = entitytainer_get_parent s c)"
  by (auto simp: add_child_migrate_def remove_child_migrate_def entitytainer_get_parent_def
      and_then_Inr_iff Let_def split: prod.splits)

theorem migration_leaves_reverse_lookup_witness:
  "add_child_migrate S5_state 9 0 (bucket_lists S5_state ! 0) 4 = Inr (S5_migrated_up, 16)
   \<and> entry_reverse_lookup S5_migrated_up = entry_reverse_lookup S5_state
   \<and> entitytainer_get_parent S5_migrated_up 21 = entitytainer_get_parent S5_state 21
   \<and> remove_child_migrate S5_before_down 9 1 (bucket_lists S5_before_down ! 1) 16 = Inr S5_migrated_down
   \<and> entry_reverse_lookup S5_migrated_down = entry_reverse_lookup S5_before_down
   \<and> entitytainer_get_parent S5_migrated_down 21 = entitytainer_get_parent S5_before_down 21"
proof -
  have up: "add_child_migrate S5_state 9 0 (bucket_lists S5_state ! 0) 4 = Inr (S5_migrated_up, 16)"
    by code_simp
  have down: "remove_child_migrate S5_before_down 9 1 (bucket_lists S5_before_down ! 1) 16
              = Inr S5_migrated_down"
    by code_simp
  show ?thesis
    using migration_leaves_reverse_lookup [OF disjI1 [OF up]]
      migration_leaves_reverse_lookup [OF disjI2 [OF down]] up down
    by simp
qed

end
